theory Spec2Isabelle
  imports Main "HOL-Library.AList" "HOL-Library.Sublist"
begin

section \<open>Data model (internal/models)\<close>

text \<open>
  Go's \<open>interface{}\<close> values, as far as the service looks at them: the values that
  \<open>encoding/json\<close> decodes into (text, numbers, booleans, null, arrays, objects).
  The code only ever asks whether such a value is a \<open>string\<close>.
\<close>

datatype jvalue =
    JNull
  | JBool bool
  | JNum int
  | JStr string
  | JArr "jvalue list"
  | JObj "(string \<times> jvalue) list"

text \<open>
  A Go \<open>map[string]T\<close> that the code ranges over is an association list with distinct
  keys: the order of the list stands for the (unspecified) order in which \<open>range\<close>
  visits the keys. A map that is only read and written by key is a HOL map.
\<close>

type_synonym 'a gomap = "(string \<times> 'a) list"

text \<open>\<open>models.DAGVar\<close>, \<open>models.RetryConfig\<close>, \<open>models.TaskConfig\<close>, \<open>models.DAGConfig\<close>,
  \<open>models.WorkflowConfig\<close>. Go's \<open>int\<close> fields are integers; the descriptive fields
  (\<open>Description\<close>, \<open>CreatedAt\<close>, ...) that no modelled function reads are left out.\<close>

record DAGVar =
  var_Name :: string
  var_DefaultValue :: jvalue
  var_Type :: string

record RetryConfigM =
  rc_Enabled :: bool
  rc_MaxTimes :: int
  rc_Interval :: int

record TaskConfig =
  tc_ID :: string
  tc_ActionName :: string
  tc_DependOn :: "string list"
  tc_Params :: "jvalue gomap"
  tc_Retry :: RetryConfigM
  tc_Timeout :: int

record DAGConfig =
  dag_Vars :: "DAGVar list"
  dag_Tasks :: "TaskConfig list"

record WorkflowConfig =
  wf_ID :: string
  wf_Topic :: string
  wf_Channel :: string
  wf_Enabled :: bool
  wf_DAG :: DAGConfig

text \<open>\<open>models.DataSource\<close>\<close>

record DataSource =
  ds_Name :: string
  ds_Type :: string
  ds_Host :: string
  ds_Port :: int
  ds_Database :: string
  ds_Username :: string
  ds_Password :: string
  ds_SSL :: bool

text \<open>\<open>models.NSQMessage\<close>; \<open>Body\<close> is the byte sequence of the message.\<close>

record NSQMessage =
  msg_Topic :: string
  msg_Channel :: string
  msg_Body :: string
  msg_Timestamp :: int
  msg_Attempts :: nat
  msg_ID :: string
  msg_Data :: "jvalue gomap"

section \<open>Consumer manager (internal/nsq/manager.go)\<close>

record Consumer =
  topic :: string
  channel :: string

text \<open>
  The manager's state: the \<open>consumers\<close> map, and the registered consumers on which
  \<open>Stop()\<close> was called and whose \<open>StopChan\<close> was awaited, in call order.
\<close>

record Manager =
  consumers :: "Consumer gomap"
  stopped :: "string list"

text \<open>
  What the bus client library answers while a consumer is built: whether
  \<open>nsq.NewConsumer\<close> accepts the topic and channel, and whether
  \<open>ConnectToNSQLookupds\<close> succeeds. The answers are those of one call of a manager
  operation: they depend on the topic and the channel only. Each operation is modelled
  as it runs alone; calls of other goroutines that interleave with it (\<open>ReloadConsumers\<close>
  releases the lock around \<open>AddConsumer\<close>) are not.
\<close>

record nsq_env =
  newConsumer_ok :: "string \<Rightarrow> string \<Rightarrow> bool"
  connect_ok :: "string \<Rightarrow> string \<Rightarrow> bool"

datatype nsq_error =
    ConsumerExists string string
  | ConsumerNotFound string string
  | CreateFailed
  | ConnectFailed

text \<open>\<open>fmt.Sprintf("%s:%s", topic, channel)\<close>\<close>

definition consumer_key :: "string \<Rightarrow> string \<Rightarrow> string" where
  "consumer_key t c = t @ '':'' @ c"

definition NewManager :: Manager where
  "NewManager = \<lparr>consumers = [], stopped = []\<rparr>"

definition AddConsumer :: "nsq_env \<Rightarrow> string \<Rightarrow> string \<Rightarrow> Manager \<Rightarrow> nsq_error option \<times> Manager" where
  "AddConsumer env t c m =
     (let key = consumer_key t c in
      if map_of (consumers m) key \<noteq> None then (Some (ConsumerExists t c), m)
      else if \<not> newConsumer_ok env t c then (Some CreateFailed, m)
      else if \<not> connect_ok env t c then (Some ConnectFailed, m)
      else (None, m\<lparr>consumers := AList.update key \<lparr>topic = t, channel = c\<rparr> (consumers m)\<rparr>))"

definition RemoveConsumer :: "string \<Rightarrow> string \<Rightarrow> Manager \<Rightarrow> nsq_error option \<times> Manager" where
  "RemoveConsumer t c m =
     (let key = consumer_key t c in
      case map_of (consumers m) key of
        None \<Rightarrow> (Some (ConsumerNotFound t c), m)
      | Some consumer \<Rightarrow>
          (None, m\<lparr>stopped := stopped m @ [key],
                   consumers := AList.delete key (consumers m)\<rparr>))"

definition ListConsumers :: "Manager \<Rightarrow> string list" where
  "ListConsumers m = map fst (consumers m)"

text \<open>The first loop of \<open>ReloadConsumers\<close>: the set \<open>requiredConsumers\<close>, a \<open>map[string]bool\<close>.\<close>

definition requiredConsumers :: "WorkflowConfig list \<Rightarrow> string \<Rightarrow> bool" where
  "requiredConsumers ws =
     fold (\<lambda>config req. if wf_Enabled config
                          then req(consumer_key (wf_Topic config) (wf_Channel config) := True)
                          else req)
          ws (\<lambda>_. False)"

text \<open>The body of the second loop: stop and delete a consumer that is not required.\<close>

definition removeStale :: "(string \<Rightarrow> bool) \<Rightarrow> string \<Rightarrow> Manager \<Rightarrow> Manager" where
  "removeStale req key m =
     (if \<not> req key
      then m\<lparr>stopped := stopped m @ [key], consumers := AList.delete key (consumers m)\<rparr>
      else m)"

text \<open>The body of the third loop: an error of \<open>AddConsumer\<close> is logged and dropped.\<close>

definition addMissing :: "nsq_env \<Rightarrow> WorkflowConfig \<Rightarrow> Manager \<Rightarrow> Manager" where
  "addMissing env config m =
     (if wf_Enabled config then
        (let key = consumer_key (wf_Topic config) (wf_Channel config) in
         if map_of (consumers m) key = None
         then snd (AddConsumer env (wf_Topic config) (wf_Channel config) m)
         else m)
      else m)"

definition ReloadConsumers :: "nsq_env \<Rightarrow> WorkflowConfig list \<Rightarrow> Manager \<Rightarrow> nsq_error option \<times> Manager" where
  "ReloadConsumers env ws m =
     (let req = requiredConsumers ws;
          m1 = fold (removeStale req) (map fst (consumers m)) m;
          m2 = fold (addMissing env) ws m1
      in (None, m2))"

text \<open>The keys of the consumer map.\<close>

definition consumer_keys :: "Manager \<Rightarrow> string set" where
  "consumer_keys m = fst ` set (consumers m)"

text \<open>The key set the specification asks for after a reload.\<close>

definition enabled_keys :: "WorkflowConfig list \<Rightarrow> string set" where
  "enabled_keys ws = {consumer_key (wf_Topic w) (wf_Channel w) | w. w \<in> set ws \<and> wf_Enabled w}"

text \<open>Whether building a consumer for this workflow's topic and channel succeeds.\<close>

definition add_ok :: "nsq_env \<Rightarrow> WorkflowConfig \<Rightarrow> bool" where
  "add_ok env w \<longleftrightarrow> newConsumer_ok env (wf_Topic w) (wf_Channel w) \<and> connect_ok env (wf_Topic w) (wf_Channel w)"

text \<open>The keys of the enabled workflows for which building a consumer succeeds.\<close>

definition added_keys :: "nsq_env \<Rightarrow> WorkflowConfig list \<Rightarrow> string set" where
  "added_keys env ws =
     {consumer_key (wf_Topic w) (wf_Channel w) | w. w \<in> set ws \<and> wf_Enabled w \<and> add_ok env w}"

text \<open>Environments and states for the concrete checks below.\<close>

definition env_up :: nsq_env where
  "env_up = \<lparr>newConsumer_ok = (\<lambda>t c. True), connect_ok = (\<lambda>t c. True)\<rparr>"

definition env_down :: nsq_env where
  "env_down = \<lparr>newConsumer_ok = (\<lambda>t c. True), connect_ok = (\<lambda>t c. False)\<rparr>"

definition wf_t1 :: WorkflowConfig where
  "wf_t1 = \<lparr>wf_ID = ''w1'', wf_Topic = ''t1'', wf_Channel = ''c1'', wf_Enabled = True,
            wf_DAG = \<lparr>dag_Vars = [], dag_Tasks = []\<rparr>\<rparr>"

definition wf_t2_off :: WorkflowConfig where
  "wf_t2_off = \<lparr>wf_ID = ''w2'', wf_Topic = ''t2'', wf_Channel = ''c2'', wf_Enabled = False,
            wf_DAG = \<lparr>dag_Vars = [], dag_Tasks = []\<rparr>\<rparr>"

definition wf_t3 :: WorkflowConfig where
  "wf_t3 = \<lparr>wf_ID = ''w3'', wf_Topic = ''t3'', wf_Channel = ''c3'', wf_Enabled = True,
            wf_DAG = \<lparr>dag_Vars = [], dag_Tasks = []\<rparr>\<rparr>"

definition mgr_t1_t2 :: Manager where
  "mgr_t1_t2 = \<lparr>consumers = [(''t1:c1'', \<lparr>topic = ''t1'', channel = ''c1''\<rparr>),
                               (''t2:c2'', \<lparr>topic = ''t2'', channel = ''c2''\<rparr>)],
                 stopped = []\<rparr>"

section \<open>Data-source manager (internal/datasource/manager.go)\<close>

text \<open>
  A pool handle (\<open>*sql.DB\<close>, \<open>*mongo.Client\<close>) is a number. The manager's state is its
  three maps, and the handles on which \<open>Close()\<close> or \<open>Disconnect()\<close> was called.
\<close>

type_synonym sql_db = nat
type_synonym mongo_client = nat

record DSManager =
  sqlDBs :: "string \<rightharpoonup> sql_db"
  mongoDBs :: "string \<rightharpoonup> mongo_client"
  dataSources :: "string \<rightharpoonup> DataSource"
  closedSQL :: "sql_db list"
  disconnected :: "mongo_client list"

text \<open>
  What the database drivers answer: \<open>sql_connect\<close> stands for \<open>sql.Open\<close> on the
  dialect's connection string, the pool limits and \<open>Ping\<close> (a pool whose ping fails is
  closed again and the error returned); \<open>mongo_connect\<close> for \<open>mongo.Connect\<close> and
  \<open>Ping\<close>.
\<close>

record ds_env =
  sql_connect :: "DataSource \<Rightarrow> string + sql_db"
  mongo_connect :: "DataSource \<Rightarrow> string + mongo_client"

datatype ds_error =
    UnsupportedType string
  | UnsupportedSQLType string
  | DriverError string
  | DataSourceNotFound string

definition NewDSManager :: DSManager where
  "NewDSManager = \<lparr>sqlDBs = Map.empty, mongoDBs = Map.empty, dataSources = Map.empty,
                     closedSQL = [], disconnected = []\<rparr>"

definition createSQLConnection :: "ds_env \<Rightarrow> DataSource \<Rightarrow> DSManager \<Rightarrow> ds_error option \<times> DSManager" where
  "createSQLConnection env ds m =
     (if ds_Type ds \<notin> {''mysql'', ''postgresql'', ''sqlserver'', ''oracle''}
      then (Some (UnsupportedSQLType (ds_Type ds)), m)
      else case sql_connect env ds of
             Inl err \<Rightarrow> (Some (DriverError err), m)
           | Inr db \<Rightarrow> (None, m\<lparr>sqlDBs := (sqlDBs m)(ds_Name ds \<mapsto> db)\<rparr>))"

definition createMongoConnection :: "ds_env \<Rightarrow> DataSource \<Rightarrow> DSManager \<Rightarrow> ds_error option \<times> DSManager" where
  "createMongoConnection env ds m =
     (case mongo_connect env ds of
        Inl err \<Rightarrow> (Some (DriverError err), m)
      | Inr client \<Rightarrow> (None, m\<lparr>mongoDBs := (mongoDBs m)(ds_Name ds \<mapsto> client)\<rparr>))"

definition AddDataSource :: "ds_env \<Rightarrow> DataSource \<Rightarrow> DSManager \<Rightarrow> ds_error option \<times> DSManager" where
  "AddDataSource env ds m =
     (let m1 = m\<lparr>dataSources := (dataSources m)(ds_Name ds \<mapsto> ds)\<rparr> in
      if ds_Type ds \<in> {''mysql'', ''postgresql'', ''sqlserver'', ''oracle''}
      then createSQLConnection env ds m1
      else if ds_Type ds = ''mongodb'' then createMongoConnection env ds m1
      else (Some (UnsupportedType (ds_Type ds)), m1))"

definition GetSQLDB :: "DSManager \<Rightarrow> string \<Rightarrow> ds_error + sql_db" where
  "GetSQLDB m name = (case sqlDBs m name of None \<Rightarrow> Inl (DataSourceNotFound name) | Some db \<Rightarrow> Inr db)"

definition GetMongoDB :: "DSManager \<Rightarrow> string \<Rightarrow> ds_error + mongo_client" where
  "GetMongoDB m name = (case mongoDBs m name of None \<Rightarrow> Inl (DataSourceNotFound name) | Some c \<Rightarrow> Inr c)"

definition RemoveDataSource :: "string \<Rightarrow> DSManager \<Rightarrow> ds_error option \<times> DSManager" where
  "RemoveDataSource name m =
     (let m1 = (case sqlDBs m name of
                  Some db \<Rightarrow> m\<lparr>closedSQL := closedSQL m @ [db], sqlDBs := (sqlDBs m)(name := None)\<rparr>
                | None \<Rightarrow> m);
          m2 = (case mongoDBs m1 name of
                  Some client \<Rightarrow> m1\<lparr>disconnected := disconnected m1 @ [client],
                                   mongoDBs := (mongoDBs m1)(name := None)\<rparr>
                | None \<Rightarrow> m1)
      in (None, m2\<lparr>dataSources := (dataSources m2)(name := None)\<rparr>))"

text \<open>Drivers and data sources for the concrete checks below.\<close>

definition ds_env_up :: ds_env where
  "ds_env_up = \<lparr>sql_connect = (\<lambda>ds. Inr 1), mongo_connect = (\<lambda>ds. Inr 2)\<rparr>"

definition ds_orders :: DataSource where
  "ds_orders = \<lparr>ds_Name = ''orders'', ds_Type = ''mysql'', ds_Host = ''db1'', ds_Port = 3306,
                 ds_Database = ''shop'', ds_Username = ''u'', ds_Password = ''p'', ds_SSL = False\<rparr>"

definition ds_orders2 :: DataSource where
  "ds_orders2 = \<lparr>ds_Name = ''orders'', ds_Type = ''mysql'', ds_Host = ''db2'', ds_Port = 3306,
                  ds_Database = ''shop'', ds_Username = ''u'', ds_Password = ''p'', ds_SSL = False\<rparr>"

definition dsm_orders :: DSManager where
  "dsm_orders = snd (AddDataSource ds_env_up ds_orders NewDSManager)"

section \<open>Message decoding (internal/nsq/manager.go)\<close>

text \<open>The bus client's \<open>nsq.Message\<close>, and the handler's own fields.\<close>

record nsq_Message =
  m_Body :: string
  m_Timestamp :: int
  m_Attempts :: nat
  m_ID :: string

record MessageHandler =
  h_topic :: string
  h_channel :: string

text \<open>
  \<open>json.Unmarshal(body, &data)\<close> with \<open>data\<close> a \<open>map[string]interface{}\<close> is a parameter
  of the model: \<open>Inl\<close> is its error (the body is not JSON, or is JSON but not an
  object), \<open>Inr\<close> the decoded map (the \<open>nil\<close> map that the body \<open>null\<close> yields reads as the
  empty map).
\<close>

type_synonym json_decoder = "string \<Rightarrow> string + jvalue gomap"

definition parseMessage :: "json_decoder \<Rightarrow> MessageHandler \<Rightarrow> nsq_Message \<Rightarrow> NSQMessage \<times> string option" where
  "parseMessage unmarshal h message =
     (let nsqMessage = \<lparr>msg_Topic = h_topic h, msg_Channel = h_channel h, msg_Body = m_Body message,
                         msg_Timestamp = m_Timestamp message, msg_Attempts = m_Attempts message,
                         msg_ID = m_ID message, msg_Data = []\<rparr> in
      if length (m_Body message) > 0 then
        (case unmarshal (m_Body message) of
           Inl err \<Rightarrow>
             (nsqMessage\<lparr>msg_Data := AList.update ''raw'' (JStr (m_Body message)) (msg_Data nsqMessage)\<rparr>, None)
         | Inr data \<Rightarrow> (nsqMessage\<lparr>msg_Data := data\<rparr>, None))
      else (nsqMessage, None))"

text \<open>A decoder that rejects its input, as \<open>encoding/json\<close> does for text that is not JSON.\<close>

definition reject_json :: json_decoder where
  "reject_json body = Inl ''invalid character''"

definition handler_tc :: MessageHandler where
  "handler_tc = \<lparr>h_topic = ''t'', h_channel = ''c''\<rparr>"

definition message_text :: nsq_Message where
  "message_text = \<lparr>m_Body = ''not json'', m_Timestamp = 0, m_Attempts = 1, m_ID = ''0123456789abcdef''\<rparr>"

definition message_empty :: nsq_Message where
  "message_empty = \<lparr>m_Body = '''', m_Timestamp = 0, m_Attempts = 1, m_ID = ''0123456789abcdef''\<rparr>"

section \<open>Workflow instances and their persistence (internal/workflow/executor.go)\<close>

text \<open>
  A value of \<open>instance.Vars\<close>: the pointer to the message, or a variable's default value.
\<close>

datatype var_value = VMessage NSQMessage | VDefault jvalue

text \<open>\<open>workflow.WorkflowInstance\<close>; times are readings of the clock, \<open>0\<close> the zero time.\<close>

record WorkflowInstance =
  inst_ID :: string
  WorkflowID :: string
  Status :: string
  StartTime :: int
  EndTime :: int
  Vars :: "var_value gomap"
  Results :: "jvalue gomap"

text \<open>
  The collection \<open>workflow_instances\<close> is the list of its documents. The MongoDB driver is
  modelled as far as \<open>saveWorkflowInstance\<close> uses it. \<open>ReplaceOne\<close>, called without
  options (so without upsert), replaces the first document that matches the filter
  \<open>{"id": id}\<close>; when no document matches it changes nothing and still returns no error
  (its result reports a matched count of 0, which the caller discards). \<open>InsertOne\<close> adds
  the document. Either call returns an error only when the operation itself fails
  (\<open>replace_error\<close>, \<open>insert_error\<close>), and then leaves the collection as it was.
\<close>

record mongo_env =
  replace_error :: "string option"
  insert_error :: "string option"

fun replaceFirst :: "('a \<Rightarrow> bool) \<Rightarrow> 'a \<Rightarrow> 'a list \<Rightarrow> 'a list" where
  "replaceFirst P y [] = []"
| "replaceFirst P y (x # xs) = (if P x then y # xs else x # replaceFirst P y xs)"

definition ReplaceOne :: "mongo_env \<Rightarrow> string \<Rightarrow> WorkflowInstance \<Rightarrow> WorkflowInstance list
    \<Rightarrow> string option \<times> WorkflowInstance list" where
  "ReplaceOne db ident doc coll =
     (case replace_error db of
        Some err \<Rightarrow> (Some err, coll)
      | None \<Rightarrow> (None, replaceFirst (\<lambda>d. inst_ID d = ident) doc coll))"

definition InsertOne :: "mongo_env \<Rightarrow> WorkflowInstance \<Rightarrow> WorkflowInstance list
    \<Rightarrow> string option \<times> WorkflowInstance list" where
  "InsertOne db doc coll =
     (case insert_error db of
        Some err \<Rightarrow> (Some err, coll)
      | None \<Rightarrow> (None, coll @ [doc]))"

definition saveWorkflowInstance :: "mongo_env \<Rightarrow> WorkflowInstance \<Rightarrow> WorkflowInstance list
    \<Rightarrow> string option \<times> WorkflowInstance list" where
  "saveWorkflowInstance db instance coll =
     (case ReplaceOne db (inst_ID instance) instance coll of
        (Some err, coll') \<Rightarrow> InsertOne db instance coll'
      | (None, coll') \<Rightarrow> (None, coll'))"

definition buildWorkflowVars :: "WorkflowConfig \<Rightarrow> NSQMessage option \<Rightarrow> var_value gomap" where
  "buildWorkflowVars workflowConfig nsqMessage =
     (let vars = (case nsqMessage of
                    Some msg \<Rightarrow> AList.update ''nsq_message'' (VMessage msg) []
                  | None \<Rightarrow> [])
      in fold (\<lambda>varConfig vars.
                 AList.update (var_Name varConfig) (VDefault (var_DefaultValue varConfig)) vars)
              (dag_Vars (wf_DAG workflowConfig)) vars)"

text \<open>The bindings that the loop over \<open>DAG.Vars\<close> writes, the last one first.\<close>

definition dag_bindings :: "WorkflowConfig \<Rightarrow> var_value gomap" where
  "dag_bindings workflowConfig =
     rev (map (\<lambda>v. (var_Name v, VDefault (var_DefaultValue v))) (dag_Vars (wf_DAG workflowConfig)))"

text \<open>A healthy driver, and inputs for the concrete checks below.\<close>

definition mongo_up :: mongo_env where
  "mongo_up = \<lparr>replace_error = None, insert_error = None\<rparr>"

definition inst_i1 :: WorkflowInstance where
  "inst_i1 = \<lparr>inst_ID = ''i1'', WorkflowID = ''w1'', Status = ''running'', StartTime = 1, EndTime = 0,
               Vars = [], Results = []\<rparr>"

definition msg_n3 :: NSQMessage where
  "msg_n3 = \<lparr>msg_Topic = ''t'', msg_Channel = ''c'', msg_Body = ''n=3'', msg_Timestamp = 0,
              msg_Attempts = 1, msg_ID = ''0123456789abcdef'', msg_Data = [(''raw'', JStr ''n=3'')]\<rparr>"

definition wf_shadow :: WorkflowConfig where
  "wf_shadow = \<lparr>wf_ID = ''w1'', wf_Topic = ''t'', wf_Channel = ''c'', wf_Enabled = True,
                 wf_DAG = \<lparr>dag_Vars = [\<lparr>var_Name = ''nsq_message'', var_DefaultValue = JStr ''x'',
                                          var_Type = ''string''\<rparr>],
                           dag_Tasks = []\<rparr>\<rparr>"

definition wf_limit :: WorkflowConfig where
  "wf_limit = \<lparr>wf_ID = ''w1'', wf_Topic = ''t'', wf_Channel = ''c'', wf_Enabled = True,
                wf_DAG = \<lparr>dag_Vars = [\<lparr>var_Name = ''limit'', var_DefaultValue = JNum 10,
                                         var_Type = ''number''\<rparr>],
                          dag_Tasks = []\<rparr>\<rparr>"

section \<open>Template expansion (internal/workflow/actions.go)\<close>

text \<open>
  \<open>strings.ReplaceAll\<close> of Go's standard library, on byte strings: the non-overlapping
  occurrences of \<open>old\<close> are replaced from the left. For an empty \<open>old\<close> Go inserts \<open>new\<close>
  before every UTF-8 sequence and at the end; the model inserts it around every byte (the
  placeholders of this service are never empty).
\<close>

fun ReplaceAll :: "string \<Rightarrow> string \<Rightarrow> string \<Rightarrow> string" where
  "ReplaceAll [] old new = (if old = [] then new else [])"
| "ReplaceAll (c # cs) old new =
     (if old = [] then new @ concat (map (\<lambda>x. x # new) (c # cs))
      else if prefix old (c # cs) then new @ ReplaceAll (drop (length old - 1) cs) old new
      else c # ReplaceAll cs old new)"

text \<open>
  \<open>ActionContext\<close>, shared by the built-in actions, and \<open>TaskContext\<close>; the \<open>nil\<close> output
  is \<open>JNull\<close>.
\<close>

record ActionContext =
  ctx_DataSourceMgr :: DSManager
  ctx_NSQMessage :: "NSQMessage option"
  ctx_WorkflowVars :: "jvalue gomap"
  ctx_PreviousOutput :: "jvalue gomap"

record TaskContext =
  task_params :: "jvalue gomap"
  task_output :: jvalue

text \<open>\<open>fmt.Sprintf("{{nsq.%s}}", key)\<close>, \<open>fmt.Sprintf("{{%s}}", key)\<close>, \<open>fmt.Sprintf("{{output.%s}}", key)\<close>\<close>

definition placeholder :: "string \<Rightarrow> string \<Rightarrow> string" where
  "placeholder pre key = ''{{'' @ pre @ key @ ''}}''"

text \<open>The body of each of the three loops: only a \<open>string\<close> value is substituted.\<close>

definition substitute :: "string \<Rightarrow> string \<times> jvalue \<Rightarrow> string \<Rightarrow> string" where
  "substitute pre kv template =
     (case snd kv of
        JStr strValue \<Rightarrow> ReplaceAll template (placeholder pre (fst kv)) strValue
      | _ \<Rightarrow> template)"

definition HTTPClientAction_replaceTemplateVars :: "ActionContext \<Rightarrow> string \<Rightarrow> string" where
  "HTTPClientAction_replaceTemplateVars ctx template =
     (let t1 = (case ctx_NSQMessage ctx of
                  Some msg \<Rightarrow> fold (substitute ''nsq.'') (msg_Data msg) template
                | None \<Rightarrow> template);
          t2 = fold (substitute '''') (ctx_WorkflowVars ctx) t1;
          t3 = fold (substitute ''output.'') (ctx_PreviousOutput ctx) t2
      in t3)"

definition DBClientAction_replaceTemplateVars :: "ActionContext \<Rightarrow> string \<Rightarrow> string" where
  "DBClientAction_replaceTemplateVars ctx template =
     (let t1 = (case ctx_NSQMessage ctx of
                  Some msg \<Rightarrow> fold (substitute ''nsq.'') (msg_Data msg) template
                | None \<Rightarrow> template);
          t2 = fold (substitute '''') (ctx_WorkflowVars ctx) t1;
          t3 = fold (substitute ''output.'') (ctx_PreviousOutput ctx) t2
      in t3)"








section \<open>Built-in actions (internal/workflow/actions.go)\<close>

datatype act_error =
    ParamRequired string
  | MarshalFailed string
  | RequestFailed string
  | HTTPStatus int string
  | ConnectionLookupFailed ds_error
  | QueryFailed string
  | UnsupportedOperation string
  | ScriptFailed string

text \<open>
  An action's \<open>Run(ctx, taskCtx)\<close>: it reads the shared \<open>ActionContext\<close> it was built
  with, may fill the output slot of the \<open>TaskContext\<close>, acts on the world outside the
  service (\<open>'w\<close>), and returns an error or \<open>nil\<close>. An action is taken to return; a
  panicking action is not modelled.
\<close>

type_synonym 'w Action = "ActionContext \<Rightarrow> TaskContext \<Rightarrow> 'w \<Rightarrow> act_error option \<times> TaskContext \<times> 'w"

record http_request =
  req_method :: string
  req_url :: string
  req_header :: "string gomap"
  req_body :: "string option"
  req_timeout :: int

record http_response =
  resp_StatusCode :: int
  resp_Header :: jvalue
  resp_Body :: string

record js_globals =
  g_nsq_message :: "NSQMessage option"
  g_workflow_vars :: "jvalue gomap"
  g_previous_output :: "jvalue gomap"

text \<open>
  The libraries behind the actions. \<open>http_do\<close> builds the request, sends it and reads
  the whole response body (\<open>Inl\<close> is the error of any of these steps);
  \<open>canonical_header\<close> is the canonical form in which \<open>Header.Set\<close> and \<open>Header.Get\<close>
  store and look up a header name; \<open>json_marshal\<close> and \<open>json_unmarshal\<close> are
  \<open>encoding/json\<close>; \<open>sql_query\<close> and \<open>sql_exec\<close> run a statement on a pool and build the
  result mapping; \<open>js_eval\<close> evaluates a script in a fresh runtime with the given globals
  and converts its result.
\<close>

record 'w action_env =
  http_do :: "http_request \<Rightarrow> 'w \<Rightarrow> (string + http_response) \<times> 'w"
  canonical_header :: "string \<Rightarrow> string"
  json_marshal :: "jvalue \<Rightarrow> string + string"
  json_unmarshal :: json_decoder
  sql_query :: "sql_db \<Rightarrow> string \<Rightarrow> jvalue list \<Rightarrow> 'w \<Rightarrow> (string + jvalue) \<times> 'w"
  sql_exec :: "sql_db \<Rightarrow> string \<Rightarrow> jvalue list \<Rightarrow> 'w \<Rightarrow> (string + jvalue) \<times> 'w"
  js_eval :: "js_globals \<Rightarrow> string \<Rightarrow> 'w \<Rightarrow> (string + jvalue) \<times> 'w"

text \<open>Type assertions on a parameter, with the zero value when the assertion fails.\<close>

definition param_string :: "jvalue gomap \<Rightarrow> string \<Rightarrow> string" where
  "param_string ps k = (case map_of ps k of Some (JStr s) \<Rightarrow> s | _ \<Rightarrow> [])"

definition param_number :: "jvalue gomap \<Rightarrow> string \<Rightarrow> int" where
  "param_number ps k = (case map_of ps k of Some (JNum n) \<Rightarrow> n | _ \<Rightarrow> 0)"

definition param_object :: "jvalue gomap \<Rightarrow> string \<Rightarrow> jvalue gomap" where
  "param_object ps k = (case map_of ps k of Some (JObj kvs) \<Rightarrow> kvs | _ \<Rightarrow> [])"

definition param_array :: "jvalue gomap \<Rightarrow> string \<Rightarrow> jvalue list" where
  "param_array ps k = (case map_of ps k of Some (JArr vs) \<Rightarrow> vs | _ \<Rightarrow> [])"

definition param_any :: "jvalue gomap \<Rightarrow> string \<Rightarrow> jvalue" where
  "param_any ps k = (case map_of ps k of Some v \<Rightarrow> v | None \<Rightarrow> JNull)"

text \<open>The loop that sets the request headers from the text-valued entries of \<open>headers\<close>.\<close>

definition setHeader :: "'w action_env \<Rightarrow> ActionContext \<Rightarrow> string \<times> jvalue \<Rightarrow> string gomap \<Rightarrow> string gomap" where
  "setHeader env ctx kv hdr =
     (case snd kv of
        JStr strValue \<Rightarrow>
          AList.update (canonical_header env (fst kv)) (HTTPClientAction_replaceTemplateVars ctx strValue) hdr
      | _ \<Rightarrow> hdr)"

definition HTTPClientAction_Run :: "'w action_env \<Rightarrow> 'w Action" where
  "HTTPClientAction_Run env ctx taskCtx w =
     (let ps = task_params taskCtx;
          url = param_string ps ''url'';
          method = param_string ps ''method'';
          headers = param_object ps ''headers'';
          body = param_any ps ''body'';
          timeout = param_number ps ''timeout''
      in if url = [] then (Some (ParamRequired ''url''), taskCtx, w)
         else
           let method = (if method = [] then ''GET'' else method);
               timeout = (if timeout = 0 then 30 else timeout);
               url = HTTPClientAction_replaceTemplateVars ctx url
           in case (if body \<noteq> JNull
                    then (case json_marshal env body of Inl err \<Rightarrow> Inl err | Inr bytes \<Rightarrow> Inr (Some bytes))
                    else Inr None) of
                Inl err \<Rightarrow> (Some (MarshalFailed err), taskCtx, w)
              | Inr reqBody \<Rightarrow>
                  let hdr = fold (setHeader env ctx) headers [];
                      hdr = (if body \<noteq> JNull \<and> map_of hdr ''Content-Type'' \<in> {None, Some []}
                             then AList.update ''Content-Type'' ''application/json'' hdr else hdr)
                  in case http_do env \<lparr>req_method = method, req_url = url, req_header = hdr,
                                        req_body = reqBody, req_timeout = timeout\<rparr> w of
                       (Inl err, w') \<Rightarrow> (Some (RequestFailed err), taskCtx, w')
                     | (Inr resp, w') \<Rightarrow>
                         let result = (case json_unmarshal env (resp_Body resp) of
                                         Inl err \<Rightarrow> [(''body'', JStr (resp_Body resp))]
                                       | Inr data \<Rightarrow> data);
                             result = AList.update ''status_code'' (JNum (resp_StatusCode resp)) result;
                             result = AList.update ''headers'' (resp_Header resp) result
                         in if resp_StatusCode resp \<ge> 400
                            then (Some (HTTPStatus (resp_StatusCode resp) (resp_Body resp)), taskCtx, w')
                            else (None, taskCtx\<lparr>task_output := JObj result\<rparr>, w'))"

definition DBClientAction_Run :: "'w action_env \<Rightarrow> 'w Action" where
  "DBClientAction_Run env ctx taskCtx w =
     (let ps = task_params taskCtx;
          dataSourceName = param_string ps ''datasource'';
          sqlQuery = param_string ps ''sql'';
          queryParams = param_array ps ''params'';
          operationType = param_string ps ''operation''
      in if dataSourceName = [] then (Some (ParamRequired ''datasource''), taskCtx, w)
         else if sqlQuery = [] then (Some (ParamRequired ''sql''), taskCtx, w)
         else
           let operationType = (if operationType = [] then ''query'' else operationType);
               sqlQuery = DBClientAction_replaceTemplateVars ctx sqlQuery
           in case GetSQLDB (ctx_DataSourceMgr ctx) dataSourceName of
                Inl err \<Rightarrow> (Some (ConnectionLookupFailed err), taskCtx, w)
              | Inr db \<Rightarrow>
                  if operationType \<noteq> ''query'' \<and> operationType \<noteq> ''exec''
                  then (Some (UnsupportedOperation operationType), taskCtx, w)
                  else case (if operationType = ''query'' then sql_query env db sqlQuery queryParams w
                             else sql_exec env db sqlQuery queryParams w) of
                         (Inl err, w') \<Rightarrow> (Some (QueryFailed err), taskCtx, w')
                       | (Inr result, w') \<Rightarrow> (None, taskCtx\<lparr>task_output := result\<rparr>, w'))"

definition JSFunctionAction_Run :: "'w action_env \<Rightarrow> 'w Action" where
  "JSFunctionAction_Run env ctx taskCtx w =
     (let ps = task_params taskCtx;
          jsCode = param_string ps ''code''
      in if jsCode = [] then (Some (ParamRequired ''code''), taskCtx, w)
         else case js_eval env \<lparr>g_nsq_message = ctx_NSQMessage ctx,
                                 g_workflow_vars = ctx_WorkflowVars ctx,
                                 g_previous_output = ctx_PreviousOutput ctx\<rparr> jsCode w of
                (Inl err, w') \<Rightarrow> (Some (ScriptFailed err), taskCtx, w')
              | (Inr result, w') \<Rightarrow> (None, taskCtx\<lparr>task_output := result\<rparr>, w'))"

section \<open>Workflow executor (internal/workflow/executor.go)\<close>

text \<open>\<open>workflow.RetryConfig\<close> and \<open>workflow.Task\<close>; a \<open>time.Duration\<close> is a number of nanoseconds.\<close>

record RetryConfig =
  MaxTimes :: int
  Interval :: int

record Task =
  task_ID :: string
  ActionName :: string
  DependOn :: "string list"
  Params :: "jvalue gomap"
  Timeout :: int
  Retry :: "RetryConfig option"

datatype exec_error =
    ActionNotFound string
  | TaskExecutionFailed string act_error
  | SaveFailed string
  | NoWorkflowConfig
  | ParseFailed string

text \<open>
  The executor: the driver of its MongoDB client, the catalog of workflow definitions
  that \<open>GetWorkflowConfig\<close> queries, the action registry, the \<open>ActionContext\<close> that
  \<open>registerDefaultActions\<close> builds and hands to the built-in actions, and the clock and
  the generator of object ids, which read the world.
\<close>

record 'w Executor =
  mongoDB :: mongo_env
  catalog :: "WorkflowConfig list"
  actions :: "string \<rightharpoonup> 'w Action"
  shared :: ActionContext
  clock :: "'w \<Rightarrow> int"
  new_id :: "'w \<Rightarrow> string"

text \<open>
  What an execution acts on: the world of the actions, the collection
  \<open>workflow_instances\<close>, and the record of the executor's own steps (each call of
  \<open>action.Run\<close>, with the id of its task, and each \<open>time.Sleep\<close>, with its duration).
\<close>

datatype event = Invoked string | Slept int

record 'w run =
  world :: 'w
  instances :: "WorkflowInstance list"
  trace :: "event list"

definition registerDefaultActions :: "'w action_env \<Rightarrow> DSManager \<Rightarrow> 'w Executor \<Rightarrow> 'w Executor" where
  "registerDefaultActions env dataSourceMgr e =
     e\<lparr>shared := \<lparr>ctx_DataSourceMgr = dataSourceMgr, ctx_NSQMessage = None,
                   ctx_WorkflowVars = [], ctx_PreviousOutput = []\<rparr>,
       actions := (actions e)(''HTTPClientAction'' \<mapsto> HTTPClientAction_Run env,
                              ''DBClientAction'' \<mapsto> DBClientAction_Run env,
                              ''JSFunctionAction'' \<mapsto> JSFunctionAction_Run env)\<rparr>"

definition NewExecutor :: "'w action_env \<Rightarrow> mongo_env \<Rightarrow> WorkflowConfig list \<Rightarrow> ('w \<Rightarrow> int) \<Rightarrow> ('w \<Rightarrow> string)
    \<Rightarrow> DSManager \<Rightarrow> 'w Executor" where
  "NewExecutor env db cat clk ids dataSourceMgr =
     registerDefaultActions env dataSourceMgr
       \<lparr>mongoDB = db, catalog = cat, actions = Map.empty,
        shared = \<lparr>ctx_DataSourceMgr = dataSourceMgr, ctx_NSQMessage = None,
                  ctx_WorkflowVars = [], ctx_PreviousOutput = []\<rparr>,
        clock = clk, new_id = ids\<rparr>"

definition RegisterAction :: "string \<Rightarrow> 'w Action \<Rightarrow> 'w Executor \<Rightarrow> 'w Executor" where
  "RegisterAction name action e = e\<lparr>actions := (actions e)(name \<mapsto> action)\<rparr>"

text \<open>\<open>time.Duration(n) * time.Second\<close>, a multiplication of 64-bit integers.\<close>

definition wrap64 :: "int \<Rightarrow> int" where
  "wrap64 i = (i + 2 ^ 63) mod 2 ^ 64 - 2 ^ 63"

definition seconds :: "int \<Rightarrow> int" where
  "seconds n = wrap64 (n * 1000000000)"

definition buildTask :: "TaskConfig \<Rightarrow> Task" where
  "buildTask taskConfig =
     \<lparr>task_ID = tc_ID taskConfig, ActionName = tc_ActionName taskConfig,
      DependOn = tc_DependOn taskConfig, Params = tc_Params taskConfig,
      Timeout = (if tc_Timeout taskConfig > 0 then seconds (tc_Timeout taskConfig) else 0),
      Retry = (if rc_Enabled (tc_Retry taskConfig)
               then Some \<lparr>MaxTimes = rc_MaxTimes (tc_Retry taskConfig),
                          Interval = seconds (rc_Interval (tc_Retry taskConfig))\<rparr>
               else None)\<rparr>"

definition buildTasks :: "WorkflowConfig \<Rightarrow> Task list" where
  "buildTasks workflowConfig = map buildTask (dag_Tasks (wf_DAG workflowConfig))"

text \<open>One call \<open>action.Run(ctx, taskCtx)\<close>.\<close>

definition invoke :: "'w Action \<Rightarrow> ActionContext \<Rightarrow> Task \<Rightarrow> TaskContext \<Rightarrow> 'w run
    \<Rightarrow> act_error option \<times> TaskContext \<times> 'w run" where
  "invoke action ctx task taskCtx s =
     (case action ctx taskCtx (world s) of
        (err, taskCtx', w') \<Rightarrow>
          (err, taskCtx', s\<lparr>world := w', trace := trace s @ [Invoked (task_ID task)]\<rparr>))"

text \<open>
  The retry loop \<open>for i := 0; i <= task.Retry.MaxTimes; i++\<close> of \<open>executeTask\<close>, from
  the counter \<open>i\<close> and the current \<open>err\<close>. The counter is a mathematical integer; Go's
  64-bit counter agrees with it for every \<open>MaxTimes\<close> below \<open>2^63 - 1\<close>.
\<close>

function retryLoop :: "'w Action \<Rightarrow> ActionContext \<Rightarrow> Task \<Rightarrow> RetryConfig \<Rightarrow> int \<Rightarrow> act_error option
    \<Rightarrow> TaskContext \<Rightarrow> 'w run \<Rightarrow> act_error option \<times> TaskContext \<times> 'w run" where
  "retryLoop action ctx task r i err taskCtx s =
     (if i \<le> MaxTimes r then
        (case invoke action ctx task taskCtx s of
           (None, taskCtx', s') \<Rightarrow> (None, taskCtx', s')
         | (Some e, taskCtx', s') \<Rightarrow>
             retryLoop action ctx task r (i + 1) (Some e) taskCtx'
               (if i < MaxTimes r then s'\<lparr>trace := trace s' @ [Slept (Interval r)]\<rparr> else s'))
      else (err, taskCtx, s))"
  by pat_completeness auto
termination
  by (relation "measure (\<lambda>(action, ctx, task, r, i, err, taskCtx, s). nat (MaxTimes r + 1 - i))") auto

declare retryLoop.simps [simp del]

definition executeTask :: "'w Executor \<Rightarrow> Task \<Rightarrow> WorkflowInstance \<Rightarrow> 'w run
    \<Rightarrow> exec_error option \<times> WorkflowInstance \<times> 'w run" where
  "executeTask e task instance s =
     (case actions e (ActionName task) of
        None \<Rightarrow> (Some (ActionNotFound (ActionName task)), instance, s)
      | Some action \<Rightarrow>
          let taskCtx = \<lparr>task_params = Params task, task_output = JNull\<rparr> in
          case (case Retry task of
                  Some r \<Rightarrow> retryLoop action (shared e) task r 0 None taskCtx s
                | None \<Rightarrow> invoke action (shared e) task taskCtx s) of
            (Some err, taskCtx', s') \<Rightarrow> (Some (TaskExecutionFailed (task_ID task) err), instance, s')
          | (None, taskCtx', s') \<Rightarrow>
              (None, instance\<lparr>Results := AList.update (task_ID task) (task_output taskCtx') (Results instance)\<rparr>, s'))"

text \<open>The loop of \<open>executeTasks\<close>, which stops at the first task that fails.\<close>

fun runTasks :: "'w Executor \<Rightarrow> Task list \<Rightarrow> WorkflowInstance \<Rightarrow> 'w run
    \<Rightarrow> exec_error option \<times> WorkflowInstance \<times> 'w run" where
  "runTasks e [] instance s = (None, instance, s)"
| "runTasks e (task # tasks) instance s =
     (case executeTask e task instance s of
        (Some err, instance', s') \<Rightarrow> (Some err, instance', s')
      | (None, instance', s') \<Rightarrow> runTasks e tasks instance' s')"

text \<open>Setting the terminal status and the end time, and saving (the error of the save is dropped).\<close>

definition finish :: "'w Executor \<Rightarrow> string \<Rightarrow> WorkflowInstance \<Rightarrow> 'w run \<Rightarrow> WorkflowInstance \<times> 'w run" where
  "finish e status instance s =
     (let instance' = instance\<lparr>Status := status, EndTime := clock e (world s)\<rparr>
      in (instance', s\<lparr>instances := snd (saveWorkflowInstance (mongoDB e) instance' (instances s))\<rparr>))"

definition executeTasks :: "'w Executor \<Rightarrow> WorkflowInstance \<Rightarrow> Task list \<Rightarrow> 'w run \<Rightarrow> WorkflowInstance \<times> 'w run" where
  "executeTasks e instance tasks s =
     (case runTasks e tasks instance s of
        (Some err, instance', s') \<Rightarrow> finish e ''failed'' instance' s'
      | (None, instance', s') \<Rightarrow> finish e ''completed'' instance' s')"

text \<open>The instance that \<open>Execute\<close> creates.\<close>

definition newInstance :: "'w Executor \<Rightarrow> WorkflowConfig \<Rightarrow> NSQMessage option \<Rightarrow> 'w run \<Rightarrow> WorkflowInstance" where
  "newInstance e workflowConfig nsqMessage s =
     \<lparr>inst_ID = new_id e (world s), WorkflowID = wf_ID workflowConfig, Status = ''running'',
      StartTime = clock e (world s), EndTime = 0,
      Vars = buildWorkflowVars workflowConfig nsqMessage, Results = []\<rparr>"

text \<open>
  \<open>Execute\<close> returns its error value to the caller when the first save is done; the
  task sequence runs in a goroutine of its own (\<open>go e.executeTasks(...)\<close>). The result is
  the returned error, the state at the return, and, when the goroutine was started, the
  instance and the state with which it ends.
\<close>

definition Execute :: "'w Executor \<Rightarrow> WorkflowConfig \<Rightarrow> NSQMessage option \<Rightarrow> 'w run
    \<Rightarrow> exec_error option \<times> 'w run \<times> (WorkflowInstance \<times> 'w run) option" where
  "Execute e workflowConfig nsqMessage s =
     (let instance = newInstance e workflowConfig nsqMessage s in
      case saveWorkflowInstance (mongoDB e) instance (instances s) of
        (Some err, coll) \<Rightarrow> (Some (SaveFailed err), s\<lparr>instances := coll\<rparr>, None)
      | (None, coll) \<Rightarrow>
          (let tasks = buildTasks workflowConfig;
               s1 = s\<lparr>instances := coll\<rparr>
           in (None, s1, Some (executeTasks e instance tasks s1))))"

definition GetWorkflowConfig :: "'w Executor \<Rightarrow> string \<Rightarrow> string \<Rightarrow> exec_error + WorkflowConfig" where
  "GetWorkflowConfig e t c =
     (case find (\<lambda>config. wf_Topic config = t \<and> wf_Channel config = c \<and> wf_Enabled config) (catalog e) of
        None \<Rightarrow> Inl NoWorkflowConfig
      | Some config \<Rightarrow> Inr config)"

definition HandleMessage :: "json_decoder \<Rightarrow> 'w Executor \<Rightarrow> MessageHandler \<Rightarrow> nsq_Message \<Rightarrow> 'w run
    \<Rightarrow> exec_error option \<times> 'w run \<times> (WorkflowInstance \<times> 'w run) option" where
  "HandleMessage unmarshal e h message s =
     (case parseMessage unmarshal h message of
        (nsqMessage, Some err) \<Rightarrow> (Some (ParseFailed err), s, None)
      | (nsqMessage, None) \<Rightarrow>
          (case GetWorkflowConfig e (h_topic h) (h_channel h) of
             Inl err \<Rightarrow> (Some err, s, None)
           | Inr workflowConfig \<Rightarrow> Execute e workflowConfig (Some nsqMessage) s))"





text \<open>
  The parts of what \<open>Execute\<close> and \<open>HandleMessage\<close> yield: the error returned to the
  caller, and the instance and the state with which the detached task sequence ends.
\<close>

definition returned :: "exec_error option \<times> 'w run \<times> (WorkflowInstance \<times> 'w run) option \<Rightarrow> exec_error option" where
  "returned res = fst res"

definition state_at_return :: "exec_error option \<times> 'w run \<times> (WorkflowInstance \<times> 'w run) option \<Rightarrow> 'w run" where
  "state_at_return res = fst (snd res)"

definition detached_instance :: "exec_error option \<times> 'w run \<times> (WorkflowInstance \<times> 'w run) option
    \<Rightarrow> WorkflowInstance option" where
  "detached_instance res = map_option fst (snd (snd res))"

definition detached_state :: "exec_error option \<times> 'w run \<times> (WorkflowInstance \<times> 'w run) option \<Rightarrow> 'w run option" where
  "detached_state res = map_option snd (snd (snd res))"

definition result_of :: "string \<Rightarrow> WorkflowInstance \<Rightarrow> jvalue option" where
  "result_of ident instance = map_of (Results instance) ident"

section \<open>Concrete executions\<close>

text \<open>
  A world that records the requests sent, and three remote ends: one that answers every
  request with status 200 and a JSON body, one that refuses every connection, and one
  that refuses the first two connections. The decoder knows the one body.
\<close>

definition body_x6 :: string where
  \<open>body_x6 = ''{"x":"6"}''\<close>

definition decode_x6 :: json_decoder where
  "decode_x6 body = (if body = body_x6 then Inr [(''x'', JStr ''6'')] else Inl ''invalid character'')"

definition resp_x6 :: http_response where
  "resp_x6 = \<lparr>resp_StatusCode = 200, resp_Header = JObj [], resp_Body = body_x6\<rparr>"

definition env_with :: "(http_request \<Rightarrow> http_request list \<Rightarrow> (string + http_response) \<times> http_request list)
    \<Rightarrow> http_request list action_env" where
  "env_with do = \<lparr>http_do = do, canonical_header = (\<lambda>k. k),
                   json_marshal = (\<lambda>v. Inl ''unsupported''), json_unmarshal = decode_x6,
                   sql_query = (\<lambda>db q ps w. (Inl ''no database'', w)),
                   sql_exec = (\<lambda>db q ps w. (Inl ''no database'', w)),
                   js_eval = (\<lambda>g code w. (Inl ''no runtime'', w))\<rparr>"

definition do_ok :: "http_request \<Rightarrow> http_request list \<Rightarrow> (string + http_response) \<times> http_request list" where
  "do_ok req w = (Inr resp_x6, w @ [req])"



definition demo_executor :: "http_request list action_env \<Rightarrow> WorkflowConfig list \<Rightarrow> http_request list Executor" where
  "demo_executor env cat = NewExecutor env mongo_up cat (\<lambda>w. int (length w)) (\<lambda>w. ''i1'') NewDSManager"

definition s0 :: "http_request list run" where
  "s0 = \<lparr>world = [], instances = [], trace = []\<rparr>"

definition http_task :: "string \<Rightarrow> string \<Rightarrow> RetryConfigM \<Rightarrow> TaskConfig" where
  "http_task ident url retry =
     \<lparr>tc_ID = ident, tc_ActionName = ''HTTPClientAction'', tc_DependOn = [],
      tc_Params = [(''url'', JStr url)], tc_Retry = retry, tc_Timeout = 0\<rparr>"

definition no_retry :: RetryConfigM where
  "no_retry = \<lparr>rc_Enabled = False, rc_MaxTimes = 0, rc_Interval = 0\<rparr>"



definition wf_tasks :: "TaskConfig list \<Rightarrow> WorkflowConfig" where
  "wf_tasks ts = \<lparr>wf_ID = ''w1'', wf_Topic = ''t'', wf_Channel = ''c'', wf_Enabled = True,
                   wf_DAG = \<lparr>dag_Vars = [], dag_Tasks = ts\<rparr>\<rparr>"

definition wf_two :: WorkflowConfig where
  "wf_two = wf_tasks [http_task ''A'' ''http://svc/a'' no_retry,
                      http_task ''B'' ''http://svc/b/{{output.x}}'' no_retry]"


definition get_request :: "string \<Rightarrow> http_request" where
  "get_request url = \<lparr>req_method = ''GET'', req_url = url, req_header = [], req_body = None, req_timeout = 30\<rparr>"




section \<open>Consumer manager: properties\<close>

lemma requiredConsumers_fold:
  "fold (\<lambda>config req. if wf_Enabled config
                          then req(consumer_key (wf_Topic config) (wf_Channel config) := True)
                          else req) ws r k
   \<longleftrightarrow> r k \<or> k \<in> enabled_keys ws"
proof (induction ws arbitrary: r)
  case Nil
  show ?case by (simp add: enabled_keys_def)
next
  case (Cons w ws)
  have split: "enabled_keys (w # ws) =
      (if wf_Enabled w then {consumer_key (wf_Topic w) (wf_Channel w)} else {}) \<union> enabled_keys ws"
    by (auto simp: enabled_keys_def)
  show ?case
    unfolding fold_Cons comp_def Cons.IH split by auto
qed

lemma requiredConsumers_iff: "requiredConsumers ws k \<longleftrightarrow> k \<in> enabled_keys ws"
  unfolding requiredConsumers_def requiredConsumers_fold by simp

lemma map_of_filter_key:
  "P k \<Longrightarrow> map_of (filter (\<lambda>p. P (fst p)) al) k = map_of al k"
  by (induction al) auto

lemma consumer_keys_iff: "k \<in> consumer_keys m \<longleftrightarrow> map_of (consumers m) k \<noteq> None"
  by (simp add: consumer_keys_def map_of_eq_None_iff)

lemma enabled_keys_Nil: "enabled_keys [] = {}"
  by (simp add: enabled_keys_def)

lemma enabled_keys_Cons:
  "enabled_keys (w # ws) =
     (if wf_Enabled w then {consumer_key (wf_Topic w) (wf_Channel w)} else {}) \<union> enabled_keys ws"
  by (auto simp: enabled_keys_def)

lemma removeStale_fold_consumers:
  "consumers (fold (removeStale req) ks m) =
     filter (\<lambda>p. fst p \<in> set ks \<longrightarrow> req (fst p)) (consumers m)"
proof (induction ks arbitrary: m)
  case Nil
  show ?case by simp
next
  case (Cons k ks)
  show ?case
    unfolding fold_Cons comp_def Cons.IH
    by (auto simp: removeStale_def AList.delete_eq intro!: filter_cong)
qed

lemma removeStale_fold_stopped:
  "stopped (fold (removeStale req) ks m) = stopped m @ filter (\<lambda>k. \<not> req k) ks"
proof (induction ks arbitrary: m)
  case Nil
  show ?case by simp
next
  case (Cons k ks)
  show ?case
    unfolding fold_Cons comp_def Cons.IH
    by (simp add: removeStale_def)
qed

lemma removeStale_all_consumers:
  "consumers (fold (removeStale req) (map fst (consumers m)) m) =
     filter (\<lambda>p. req (fst p)) (consumers m)"
  unfolding removeStale_fold_consumers by (rule filter_cong) auto

lemma addMissing_stopped: "stopped (addMissing env w m) = stopped m"
  by (simp add: addMissing_def AddConsumer_def Let_def)

lemma addMissing_keys:
  "consumer_keys (addMissing env w m) =
     consumer_keys m \<union> (if wf_Enabled w \<and> add_ok env w
                          then {consumer_key (wf_Topic w) (wf_Channel w)} else {})"
  by (auto simp: addMissing_def AddConsumer_def Let_def consumer_keys_def add_ok_def
      AList.dom_update map_of_eq_None_iff)

lemma addMissing_lookup:
  "k \<in> consumer_keys m \<Longrightarrow> map_of (consumers (addMissing env w m)) k = map_of (consumers m) k"
  unfolding consumer_keys_iff
  by (auto simp: addMissing_def AddConsumer_def Let_def AList.update_conv')

lemma addMissing_fold_stopped: "stopped (fold (addMissing env) ws m) = stopped m"
  by (induction ws arbitrary: m) (simp_all add: addMissing_stopped)

lemma addMissing_fold_keys:
  "consumer_keys (fold (addMissing env) ws m) =
     consumer_keys m \<union> {consumer_key (wf_Topic w) (wf_Channel w) | w.
                           w \<in> set ws \<and> wf_Enabled w \<and> add_ok env w}"
proof (induction ws arbitrary: m)
  case Nil
  show ?case by simp
next
  case (Cons w ws)
  show ?case
    unfolding fold_Cons comp_def Cons.IH addMissing_keys by auto
qed

lemma addMissing_fold_lookup:
  "k \<in> consumer_keys m \<Longrightarrow> map_of (consumers (fold (addMissing env) ws m)) k = map_of (consumers m) k"
proof (induction ws arbitrary: m)
  case Nil
  show ?case by simp
next
  case (Cons w ws)
  have "k \<in> consumer_keys (addMissing env w m)"
    using Cons.prems by (simp add: addMissing_keys)
  then show ?case
    using Cons.IH Cons.prems by (simp add: addMissing_lookup)
qed

lemma added_keys_Nil: "added_keys env [] = {}"
  by (simp add: added_keys_def)

lemma added_keys_Cons:
  "added_keys env (w # ws) =
     (if wf_Enabled w \<and> add_ok env w then {consumer_key (wf_Topic w) (wf_Channel w)} else {})
     \<union> added_keys env ws"
  by (auto simp: added_keys_def)

text \<open>
  Claim C4, as amended. After \<open>ReloadConsumers ws\<close> the key set of the consumer map is
  the old keys that are required, together with the keys of the enabled workflows for
  which building a consumer succeeds (a failure of \<open>AddConsumer\<close> is logged and the key
  stays absent). Exactly the consumers whose key is not required are stopped and
  deleted; a consumer already present under a required key keeps its entry. When every
  enabled workflow's consumer can be built, the key set is exactly the set of
  \<open>"topic:channel"\<close> keys of the enabled workflows. The call always returns \<open>nil\<close>.
\<close>

theorem ReloadConsumers_keys:
  "fst (ReloadConsumers env ws m) = None \<and>
   consumer_keys (snd (ReloadConsumers env ws m)) =
     (consumer_keys m \<inter> enabled_keys ws) \<union> added_keys env ws \<and>
   stopped (snd (ReloadConsumers env ws m)) =
     stopped m @ filter (\<lambda>k. k \<notin> enabled_keys ws) (map fst (consumers m)) \<and>
   (\<forall>k \<in> consumer_keys m \<inter> enabled_keys ws.
      map_of (consumers (snd (ReloadConsumers env ws m))) k = map_of (consumers m) k) \<and>
   ((\<forall>w \<in> set ws. wf_Enabled w \<longrightarrow> add_ok env w) \<longrightarrow>
      consumer_keys (snd (ReloadConsumers env ws m)) = enabled_keys ws)"
proof -
  define m1 where "m1 = fold (removeStale (requiredConsumers ws)) (map fst (consumers m)) m"
  define m2 where "m2 = fold (addMissing env) ws m1"
  have r: "ReloadConsumers env ws m = (None, m2)"
    by (simp add: ReloadConsumers_def m1_def m2_def)
  have c1: "consumers m1 = filter (\<lambda>p. fst p \<in> enabled_keys ws) (consumers m)"
    by (simp add: m1_def removeStale_all_consumers requiredConsumers_iff)
  have k1: "consumer_keys m1 = consumer_keys m \<inter> enabled_keys ws"
    by (auto simp: consumer_keys_def c1)
  have s1: "stopped m1 = stopped m @ filter (\<lambda>k. k \<notin> enabled_keys ws) (map fst (consumers m))"
    by (simp add: m1_def removeStale_fold_stopped requiredConsumers_iff)
  have k2: "consumer_keys m2 = (consumer_keys m \<inter> enabled_keys ws) \<union> added_keys env ws"
    by (simp add: m2_def addMissing_fold_keys k1 added_keys_def)
  have s2: "stopped m2 = stopped m @ filter (\<lambda>k. k \<notin> enabled_keys ws) (map fst (consumers m))"
    by (simp add: m2_def addMissing_fold_stopped s1)
  have l1: "map_of (consumers m1) k = map_of (consumers m) k" if "k \<in> enabled_keys ws" for k
    unfolding c1 using that by (rule map_of_filter_key)
  have l2: "map_of (consumers m2) k = map_of (consumers m) k"
    if "k \<in> consumer_keys m \<inter> enabled_keys ws" for k
  proof -
    have "k \<in> consumer_keys m1" using that by (simp add: k1)
    then have "map_of (consumers m2) k = map_of (consumers m1) k"
      unfolding m2_def by (rule addMissing_fold_lookup)
    then show ?thesis using that by (simp add: l1)
  qed
  have full: "consumer_keys m2 = enabled_keys ws" if "\<forall>w \<in> set ws. wf_Enabled w \<longrightarrow> add_ok env w"
    unfolding k2 using that by (auto simp: enabled_keys_def added_keys_def)
  show ?thesis
    unfolding r fst_conv snd_conv using k2 s2 l2 full by blast
qed

text \<open>
  Witness for C4: the reload of scenario 4 (consumers \<open>t1:c1\<close> and \<open>t2:c2\<close>; workflows
  \<open>t1/c1\<close> enabled, \<open>t2/c2\<close> disabled, \<open>t3/c3\<close> enabled) with a reachable bus.
\<close>

theorem ReloadConsumers_keys_witness:
  "add_ok env_up wf_t1 \<and> \<not> wf_Enabled wf_t2_off \<and> add_ok env_up wf_t3 \<and>
   consumer_keys (snd (ReloadConsumers env_up [wf_t1, wf_t2_off, wf_t3] mgr_t1_t2)) = {''t1:c1'', ''t3:c3''} \<and>
   enabled_keys [wf_t1, wf_t2_off, wf_t3] = {''t1:c1'', ''t3:c3''} \<and>
   stopped (snd (ReloadConsumers env_up [wf_t1, wf_t2_off, wf_t3] mgr_t1_t2)) = [''t2:c2'']"
proof -
  note r = ReloadConsumers_keys [of env_up "[wf_t1, wf_t2_off, wf_t3]" mgr_t1_t2]
  have ok: "\<forall>w \<in> set [wf_t1, wf_t2_off, wf_t3]. wf_Enabled w \<longrightarrow> add_ok env_up w"
    by (simp add: add_ok_def env_up_def)
  have e: "enabled_keys [wf_t1, wf_t2_off, wf_t3] = {''t1:c1'', ''t3:c3''}"
    by (auto simp: enabled_keys_Cons enabled_keys_Nil wf_t1_def wf_t2_off_def wf_t3_def consumer_key_def)
  have k: "consumer_keys (snd (ReloadConsumers env_up [wf_t1, wf_t2_off, wf_t3] mgr_t1_t2))
             = enabled_keys [wf_t1, wf_t2_off, wf_t3]"
    using r ok by blast
  have "stopped (snd (ReloadConsumers env_up [wf_t1, wf_t2_off, wf_t3] mgr_t1_t2)) =
     stopped mgr_t1_t2 @ filter (\<lambda>k. k \<notin> enabled_keys [wf_t1, wf_t2_off, wf_t3]) (map fst (consumers mgr_t1_t2))"
    using r by blast
  then have s: "stopped (snd (ReloadConsumers env_up [wf_t1, wf_t2_off, wf_t3] mgr_t1_t2)) = [''t2:c2'']"
    unfolding e by (simp add: mgr_t1_t2_def)
  have ok': "add_ok env_up wf_t1 \<and> \<not> wf_Enabled wf_t2_off \<and> add_ok env_up wf_t3"
    by (simp add: add_ok_def env_up_def wf_t2_off_def)
  show ?thesis using ok' k e s by simp
qed

text \<open>
  Counterexample to C4 as stated: when the discovery endpoints cannot be reached, the
  reload of one enabled workflow leaves the consumer map empty, although its key is
  required.
\<close>

theorem ReloadConsumers_add_fails:
  "consumer_keys (snd (ReloadConsumers env_down [wf_t1] NewManager)) \<noteq> enabled_keys [wf_t1]"
  by (simp add: ReloadConsumers_def requiredConsumers_def addMissing_def AddConsumer_def NewManager_def
      env_down_def wf_t1_def consumer_keys_def enabled_keys_Cons enabled_keys_Nil consumer_key_def)

text \<open>
  Claim C10. \<open>RemoveConsumer\<close> for a topic and channel without a registered consumer
  returns the error "consumer for topic ... channel ... not found" and leaves the manager
  (its consumer map included) as it was.
\<close>

theorem RemoveConsumer_not_found:
  "map_of (consumers m) (consumer_key t c) = None \<Longrightarrow>
   RemoveConsumer t c m = (Some (ConsumerNotFound t c), m)"
  by (simp add: RemoveConsumer_def)

text \<open>Witness for C10: removing \<open>t3/c3\<close> from a manager that holds \<open>t1:c1\<close> and \<open>t2:c2\<close>.\<close>

theorem RemoveConsumer_not_found_witness:
  "map_of (consumers mgr_t1_t2) (consumer_key ''t3'' ''c3'') = None \<and>
   RemoveConsumer ''t3'' ''c3'' mgr_t1_t2 = (Some (ConsumerNotFound ''t3'' ''c3''), mgr_t1_t2)"
proof -
  have h: "map_of (consumers mgr_t1_t2) (consumer_key ''t3'' ''c3'') = None"
    by (simp add: mgr_t1_t2_def consumer_key_def)
  show ?thesis using h RemoveConsumer_not_found [OF h] by simp
qed

section \<open>Data-source manager: properties\<close>

lemma RemoveDataSource_maps:
  "sqlDBs (snd (RemoveDataSource name m)) = (sqlDBs m)(name := None) \<and>
   mongoDBs (snd (RemoveDataSource name m)) = (mongoDBs m)(name := None) \<and>
   dataSources (snd (RemoveDataSource name m)) = (dataSources m)(name := None)"
  by (simp add: RemoveDataSource_def Let_def fun_upd_idem split: option.splits)

lemma createSQLConnection_maps:
  "(sqlDBs (snd (createSQLConnection env ds m)))(ds_Name ds := None) = (sqlDBs m)(ds_Name ds := None) \<and>
   mongoDBs (snd (createSQLConnection env ds m)) = mongoDBs m \<and>
   dataSources (snd (createSQLConnection env ds m)) = dataSources m"
  unfolding createSQLConnection_def by (simp split: sum.splits del: insert_iff)

lemma createMongoConnection_maps:
  "sqlDBs (snd (createMongoConnection env ds m)) = sqlDBs m \<and>
   (mongoDBs (snd (createMongoConnection env ds m)))(ds_Name ds := None) = (mongoDBs m)(ds_Name ds := None) \<and>
   dataSources (snd (createMongoConnection env ds m)) = dataSources m"
  unfolding createMongoConnection_def by (simp split: sum.splits)

lemma AddDataSource_maps:
  "(sqlDBs (snd (AddDataSource env ds m)))(ds_Name ds := None) = (sqlDBs m)(ds_Name ds := None) \<and>
   (mongoDBs (snd (AddDataSource env ds m)))(ds_Name ds := None) = (mongoDBs m)(ds_Name ds := None) \<and>
   (dataSources (snd (AddDataSource env ds m)))(ds_Name ds := None) = (dataSources m)(ds_Name ds := None)"
  unfolding AddDataSource_def Let_def
  by (simp add: createSQLConnection_maps createMongoConnection_maps del: insert_iff)

text \<open>
  Claim C9, as amended. \<open>RemoveDataSource name\<close> on a manager that holds no entry for
  \<open>name\<close> returns \<open>nil\<close> and changes nothing. For a data source \<open>ds\<close> whose name is not
  registered (in none of the three maps), \<open>AddDataSource ds\<close> followed by
  \<open>RemoveDataSource ds.Name\<close> leaves the configuration map and both pool maps as they
  were before the add, whether the add succeeded or failed.
\<close>

theorem AddDataSource_RemoveDataSource:
  "(sqlDBs m name = None \<and> mongoDBs m name = None \<and> dataSources m name = None
      \<longrightarrow> RemoveDataSource name m = (None, m)) \<and>
   (sqlDBs m (ds_Name ds) = None \<and> mongoDBs m (ds_Name ds) = None \<and> dataSources m (ds_Name ds) = None
      \<longrightarrow> sqlDBs (snd (RemoveDataSource (ds_Name ds) (snd (AddDataSource env ds m)))) = sqlDBs m \<and>
          mongoDBs (snd (RemoveDataSource (ds_Name ds) (snd (AddDataSource env ds m)))) = mongoDBs m \<and>
          dataSources (snd (RemoveDataSource (ds_Name ds) (snd (AddDataSource env ds m)))) = dataSources m)"
proof (intro conjI impI)
  assume "sqlDBs m name = None \<and> mongoDBs m name = None \<and> dataSources m name = None"
  then show "RemoveDataSource name m = (None, m)"
    by (simp add: RemoveDataSource_def fun_upd_idem)
next
  assume fresh: "sqlDBs m (ds_Name ds) = None \<and> mongoDBs m (ds_Name ds) = None \<and> dataSources m (ds_Name ds) = None"
  let ?m' = "snd (RemoveDataSource (ds_Name ds) (snd (AddDataSource env ds m)))"
  show "sqlDBs ?m' = sqlDBs m"
    using fresh by (simp add: RemoveDataSource_maps AddDataSource_maps fun_upd_idem)
  show "mongoDBs ?m' = mongoDBs m"
    using fresh by (simp add: RemoveDataSource_maps AddDataSource_maps fun_upd_idem)
  show "dataSources ?m' = dataSources m"
    using fresh by (simp add: RemoveDataSource_maps AddDataSource_maps fun_upd_idem)
qed

lemma dsm_orders_eval:
  "sqlDBs dsm_orders = [''orders'' \<mapsto> 1] \<and> mongoDBs dsm_orders = Map.empty \<and>
   dataSources dsm_orders = [''orders'' \<mapsto> ds_orders]"
  by (simp add: dsm_orders_def AddDataSource_def createSQLConnection_def NewDSManager_def
      ds_env_up_def ds_orders_def)

text \<open>
  Witness for C9: the fresh manager holds no entry for \<open>orders\<close>; adding the MySQL data
  source \<open>orders\<close> registers pool 1, and removing it gives the three maps of the fresh
  manager back.
\<close>

theorem AddDataSource_RemoveDataSource_witness:
  "sqlDBs NewDSManager ''orders'' = None \<and> mongoDBs NewDSManager ''orders'' = None \<and>
   dataSources NewDSManager ''orders'' = None \<and>
   RemoveDataSource ''orders'' NewDSManager = (None, NewDSManager) \<and>
   sqlDBs (snd (AddDataSource ds_env_up ds_orders NewDSManager)) ''orders'' = Some 1 \<and>
   sqlDBs (snd (RemoveDataSource ''orders'' (snd (AddDataSource ds_env_up ds_orders NewDSManager)))) = sqlDBs NewDSManager \<and>
   mongoDBs (snd (RemoveDataSource ''orders'' (snd (AddDataSource ds_env_up ds_orders NewDSManager)))) = mongoDBs NewDSManager \<and>
   dataSources (snd (RemoveDataSource ''orders'' (snd (AddDataSource ds_env_up ds_orders NewDSManager)))) = dataSources NewDSManager"
proof -
  have n: "ds_Name ds_orders = ''orders''" by (simp add: ds_orders_def)
  have h: "sqlDBs NewDSManager ''orders'' = None \<and> mongoDBs NewDSManager ''orders'' = None \<and>
           dataSources NewDSManager ''orders'' = None"
    by (simp add: NewDSManager_def)
  have a: "sqlDBs (snd (AddDataSource ds_env_up ds_orders NewDSManager)) ''orders'' = Some 1"
    using dsm_orders_eval by (simp add: dsm_orders_def)
  show ?thesis
    using h a AddDataSource_RemoveDataSource [of NewDSManager "''orders''" ds_orders ds_env_up]
    unfolding n by simp
qed

text \<open>
  Counterexample to C9 as stated: when a data source named \<open>orders\<close> is already
  registered, adding another data source of that name and removing it leaves no entry
  for \<open>orders\<close>: the prior entry is lost.
\<close>

theorem AddDataSource_RemoveDataSource_existing:
  "dataSources (snd (RemoveDataSource (ds_Name ds_orders2) (snd (AddDataSource ds_env_up ds_orders2 dsm_orders)))) ''orders''
     \<noteq> dataSources dsm_orders ''orders''"
  by (simp add: RemoveDataSource_def dsm_orders_def AddDataSource_def createSQLConnection_def NewDSManager_def
      ds_env_up_def ds_orders_def ds_orders2_def Let_def)

section \<open>Message decoding: properties\<close>

text \<open>
  Claim C7, as amended. \<open>parseMessage\<close> never returns an error. For a non-empty body that
  \<open>json.Unmarshal\<close> rejects, the data of the message is exactly \<open>{raw: body}\<close>, the body
  bytes as text. For an empty body the decoder is not called and the data is the empty
  map.
\<close>

theorem parseMessage_raw:
  "snd (parseMessage unmarshal h message) = None \<and>
   (m_Body message \<noteq> [] \<and> unmarshal (m_Body message) = Inl err
      \<longrightarrow> msg_Data (fst (parseMessage unmarshal h message)) = [(''raw'', JStr (m_Body message))]) \<and>
   (m_Body message = [] \<longrightarrow> msg_Data (fst (parseMessage unmarshal h message)) = [])"
  by (simp add: parseMessage_def Let_def split: sum.splits)

text \<open>
  Witness for C7: the body \<open>not json\<close> is stored under \<open>raw\<close>; the empty body gives the
  empty map.
\<close>

theorem parseMessage_raw_witness:
  "m_Body message_text \<noteq> [] \<and> reject_json (m_Body message_text) = Inl ''invalid character'' \<and>
   snd (parseMessage reject_json handler_tc message_text) = None \<and>
   msg_Data (fst (parseMessage reject_json handler_tc message_text)) = [(''raw'', JStr ''not json'')] \<and>
   m_Body message_empty = [] \<and>
   msg_Data (fst (parseMessage reject_json handler_tc message_empty)) = []"
proof -
  have h: "m_Body message_text \<noteq> [] \<and> reject_json (m_Body message_text) = Inl ''invalid character''"
    by (simp add: message_text_def reject_json_def)
  have e: "m_Body message_empty = []" by (simp add: message_empty_def)
  have b: "m_Body message_text = ''not json''" by (simp add: message_text_def)
  show ?thesis
    using h e parseMessage_raw [of reject_json handler_tc message_text "''invalid character''"]
      parseMessage_raw [of reject_json handler_tc message_empty "''invalid character''"]
    unfolding b by simp
qed

text \<open>
  Counterexample to C7 as stated: the empty body is not a JSON object, and the data of
  its message is the empty map, not \<open>{raw: ""}\<close>.
\<close>

theorem parseMessage_empty_body:
  "msg_Data (fst (parseMessage reject_json handler_tc message_empty)) \<noteq> [(''raw'', JStr (m_Body message_empty))]"
  by (simp add: parseMessage_def message_empty_def Let_def)

section \<open>Persistence and instance variables: properties\<close>

text \<open>
  Claim C2 at its failing input. With a healthy driver and an empty collection,
  \<open>saveWorkflowInstance\<close> stores nothing: \<open>ReplaceOne\<close> matches no document and returns
  no error, so the fallback \<open>InsertOne\<close> is not reached. Saving the same instance twice
  leaves the collection empty, where the claim asks for exactly one document.
\<close>

theorem saveWorkflowInstance_no_insert:
  "saveWorkflowInstance mongo_up inst_i1 [] = (None, []) \<and>
   snd (saveWorkflowInstance mongo_up inst_i1 (snd (saveWorkflowInstance mongo_up inst_i1 []))) = []"
  by (simp add: saveWorkflowInstance_def ReplaceOne_def mongo_up_def)

lemma fold_update_map_of:
  "map_of (fold (\<lambda>varConfig vars.
                 AList.update (var_Name varConfig) (VDefault (var_DefaultValue varConfig)) vars) vs al) n
   = (case map_of (rev (map (\<lambda>v. (var_Name v, VDefault (var_DefaultValue v))) vs)) n of
        Some v \<Rightarrow> Some v | None \<Rightarrow> map_of al n)"
proof (induction vs arbitrary: al)
  case Nil
  show ?case by simp
next
  case (Cons v vs)
  show ?case
    unfolding fold_Cons comp_def Cons.IH
    by (simp add: AList.update_conv' map_add_def split: option.splits)
qed

text \<open>
  Claim C5, as amended. \<open>buildWorkflowVars\<close> binds \<open>nsq_message\<close> to the message first
  (when there is one) and then binds every \<open>DAG.Vars[i].Name\<close> to its default value, in
  order, a later binding replacing an earlier one. So a name that some DAG variable
  carries is bound to the default value of the last such variable, also when the name is
  \<open>nsq_message\<close>; \<open>nsq_message\<close> is bound to the message only when no DAG variable has
  that name; every other name is unbound.
\<close>

theorem buildWorkflowVars_lookup:
  "map_of (buildWorkflowVars workflowConfig nsqMessage) n =
     (case map_of (dag_bindings workflowConfig) n of
        Some v \<Rightarrow> Some v
      | None \<Rightarrow> if n = ''nsq_message'' then map_option VMessage nsqMessage else None)"
  unfolding buildWorkflowVars_def Let_def fold_update_map_of dag_bindings_def
  by (simp split: option.splits)

text \<open>
  Witness for C5: with the one DAG variable \<open>limit\<close>, \<open>nsq_message\<close> is the message and
  \<open>limit\<close> its default; with a DAG variable named \<open>nsq_message\<close>, that name is bound to the
  variable's default value.
\<close>

theorem buildWorkflowVars_lookup_witness:
  "map_of (buildWorkflowVars wf_limit (Some msg_n3)) ''nsq_message'' = Some (VMessage msg_n3) \<and>
   map_of (buildWorkflowVars wf_limit (Some msg_n3)) ''limit'' = Some (VDefault (JNum 10)) \<and>
   map_of (buildWorkflowVars wf_shadow (Some msg_n3)) ''nsq_message'' = Some (VDefault (JStr ''x''))"
  using buildWorkflowVars_lookup [of wf_limit "Some msg_n3" "''nsq_message''"]
    buildWorkflowVars_lookup [of wf_limit "Some msg_n3" "''limit''"]
    buildWorkflowVars_lookup [of wf_shadow "Some msg_n3" "''nsq_message''"]
  by (simp add: dag_bindings_def wf_limit_def wf_shadow_def)

text \<open>
  Counterexample to C5 as stated: a DAG variable named \<open>nsq_message\<close> with default
  \<open>"x"\<close> shadows the message.
\<close>

theorem buildWorkflowVars_shadowed:
  "map_of (buildWorkflowVars wf_shadow (Some msg_n3)) ''nsq_message'' \<noteq> Some (VMessage msg_n3)"
  by (simp add: buildWorkflowVars_def wf_shadow_def)

section \<open>Template expansion: properties\<close>
















section \<open>Workflow executor: properties\<close>









lemma replaceTemplateVars_no_bindings:
  "ctx_NSQMessage ctx = None \<Longrightarrow> ctx_WorkflowVars ctx = [] \<Longrightarrow> ctx_PreviousOutput ctx = [] \<Longrightarrow>
   HTTPClientAction_replaceTemplateVars ctx t = t"
  by (simp add: HTTPClientAction_replaceTemplateVars_def)

lemma demo_shared:
  "shared (demo_executor env cat) =
     \<lparr>ctx_DataSourceMgr = NewDSManager, ctx_NSQMessage = None, ctx_WorkflowVars = [], ctx_PreviousOutput = []\<rparr>"
  by (simp add: demo_executor_def NewExecutor_def registerDefaultActions_def)

lemma demo_expand: "HTTPClientAction_replaceTemplateVars (shared (demo_executor env cat)) t = t"
  by (rule replaceTemplateVars_no_bindings) (simp_all add: demo_shared)

lemma demo_actions:
  "actions (demo_executor env cat) ''HTTPClientAction'' = Some (HTTPClientAction_Run env)"
  by (simp add: demo_executor_def NewExecutor_def registerDefaultActions_def)

lemma demo_fields:
  "mongoDB (demo_executor env cat) = mongo_up \<and> catalog (demo_executor env cat) = cat \<and>
   clock (demo_executor env cat) w = int (length w) \<and> new_id (demo_executor env cat) w = ''i1''"
  by (simp add: demo_executor_def NewExecutor_def registerDefaultActions_def)

text \<open>A GET task of the concrete executions: the request it sends, and what it returns.\<close>

lemma http_get_run:
  assumes "url \<noteq> []"
  shows "HTTPClientAction_Run (env_with do) (shared (demo_executor env cat))
           \<lparr>task_params = [(''url'', JStr url)], task_output = out\<rparr> w =
         (case do (get_request url) w of
            (Inl err, w') \<Rightarrow> (Some (RequestFailed err), \<lparr>task_params = [(''url'', JStr url)], task_output = out\<rparr>, w')
          | (Inr resp, w') \<Rightarrow>
              if resp_StatusCode resp \<ge> 400
              then (Some (HTTPStatus (resp_StatusCode resp) (resp_Body resp)),
                    \<lparr>task_params = [(''url'', JStr url)], task_output = out\<rparr>, w')
              else (None, \<lparr>task_params = [(''url'', JStr url)],
                           task_output = JObj (AList.update ''headers'' (resp_Header resp)
                             (AList.update ''status_code'' (JNum (resp_StatusCode resp))
                               (case decode_x6 (resp_Body resp) of
                                  Inl err \<Rightarrow> [(''body'', JStr (resp_Body resp))] | Inr data \<Rightarrow> data)))\<rparr>, w'))"
  using assms
  by (simp add: HTTPClientAction_Run_def Let_def param_string_def param_object_def param_any_def
      param_number_def demo_expand env_with_def get_request_def split: prod.splits sum.splits)











lemma parseMessage_no_error: "snd (parseMessage unmarshal h message) = None"
  by (simp add: parseMessage_def Let_def split: sum.splits)

lemma saveWorkflowInstance_healthy:
  "replace_error db = None \<Longrightarrow>
   saveWorkflowInstance db inst coll = (None, replaceFirst (\<lambda>d. inst_ID d = inst_ID inst) inst coll)"
  by (simp add: saveWorkflowInstance_def ReplaceOne_def)

lemma finish_fields:
  "Status (fst (finish e status inst s)) = status \<and>
   Results (fst (finish e status inst s)) = Results inst \<and>
   trace (snd (finish e status inst s)) = trace s \<and>
   world (snd (finish e status inst s)) = world s"
  by (simp add: finish_def Let_def)

lemma HandleMessage_dispatch:
  assumes "GetWorkflowConfig e (h_topic h) (h_channel h) = Inr cfg"
      and "replace_error (mongoDB e) = None"
  shows "HandleMessage unmarshal e h message s =
           (None, state_at_return (HandleMessage unmarshal e h message s),
            Some (executeTasks e (newInstance e cfg (Some (fst (parseMessage unmarshal h message))) s)
                    (buildTasks cfg) (state_at_return (HandleMessage unmarshal e h message s))))"
proof -
  obtain msg where p: "parseMessage unmarshal h message = (msg, None)"
    using parseMessage_no_error [of unmarshal h message]
    by (cases "parseMessage unmarshal h message") auto
  show ?thesis
    using assms
    by (simp add: HandleMessage_def p Execute_def Let_def saveWorkflowInstance_healthy state_at_return_def)
qed



lemma HandleMessage_state_at_return:
  assumes "GetWorkflowConfig e (h_topic h) (h_channel h) = Inr cfg"
      and "replace_error (mongoDB e) = None"
  shows "trace (state_at_return (HandleMessage unmarshal e h message s)) = trace s \<and>
         world (state_at_return (HandleMessage unmarshal e h message s)) = world s"
proof -
  obtain msg where p: "parseMessage unmarshal h message = (msg, None)"
    using parseMessage_no_error [of unmarshal h message]
    by (cases "parseMessage unmarshal h message") auto
  show ?thesis
    using assms
    by (simp add: HandleMessage_def p Execute_def Let_def saveWorkflowInstance_healthy state_at_return_def)
qed

lemma demo_catalog:
  "GetWorkflowConfig (demo_executor env [wf_tasks ts]) (h_topic handler_tc) (h_channel handler_tc)
     = Inr (wf_tasks ts)"
  by (simp add: GetWorkflowConfig_def demo_fields wf_tasks_def handler_tc_def)

lemma demo_healthy: "replace_error (mongoDB (demo_executor env cat)) = None"
  by (simp add: demo_fields mongo_up_def)






lemma demo_get_ok:
  assumes "Retry task = None" and "ActionName task = ''HTTPClientAction''"
      and "Params task = [(''url'', JStr url)]" and "url \<noteq> []"
  shows "executeTask (demo_executor (env_with do_ok) cat) task inst s =
           (None,
            inst\<lparr>Results := AList.update (task_ID task)
                     (JObj [(''x'', JStr ''6''), (''status_code'', JNum 200), (''headers'', JObj [])])
                     (Results inst)\<rparr>,
            s\<lparr>world := world s @ [get_request url], trace := trace s @ [Invoked (task_ID task)]\<rparr>)"
  using assms
  by (simp add: executeTask_def demo_actions invoke_def http_get_run do_ok_def resp_x6_def decode_x6_def)

lemma buildTasks_wf_two:
  "buildTasks wf_two = [buildTask (http_task ''A'' ''http://svc/a'' no_retry),
                        buildTask (http_task ''B'' ''http://svc/b/{{output.x}}'' no_retry)]"
  by (simp add: buildTasks_def wf_two_def wf_tasks_def)

lemma http_task_fields:
  "task_ID (buildTask (http_task ident url no_retry)) = ident \<and>
   Retry (buildTask (http_task ident url no_retry)) = None \<and>
   ActionName (buildTask (http_task ident url no_retry)) = ''HTTPClientAction'' \<and>
   Params (buildTask (http_task ident url no_retry)) = [(''url'', JStr url)]"
  by (simp add: buildTask_def http_task_def no_retry_def)

text \<open>
  Claim C1 at its failing input. The workflow has the HTTP tasks \<open>A\<close>, a GET of
  \<open>http://svc/a\<close>, and \<open>B\<close>, a GET of \<open>http://svc/b/{{output.x}}\<close>; the remote end
  answers every request with status 200 and the body \<open>{"x":"6"}\<close>. The execution
  completes and the output of \<open>A\<close>, with \<open>x = "6"\<close>, is stored under \<open>results["A"]\<close>. But
  the request that \<open>B\<close> sends still carries the placeholder: the URL is
  \<open>http://svc/b/{{output.x}}\<close>, where the claim asks for \<open>http://svc/b/6\<close>. The
  \<open>ActionContext\<close> that \<open>registerDefaultActions\<close> hands to the built-in actions has an
  empty \<open>PreviousOutput\<close>, and no step of the executor writes to it; so in every executor
  built by \<open>NewExecutor\<close> template expansion leaves every template as it is.
\<close>

theorem previous_output_not_propagated:
  "returned (HandleMessage reject_json (demo_executor (env_with do_ok) [wf_two]) handler_tc message_text s0) = None \<and>
   map_option Status (detached_instance
      (HandleMessage reject_json (demo_executor (env_with do_ok) [wf_two]) handler_tc message_text s0))
     = Some ''completed'' \<and>
   map_option (result_of ''A'') (detached_instance
      (HandleMessage reject_json (demo_executor (env_with do_ok) [wf_two]) handler_tc message_text s0))
     = Some (Some (JObj [(''x'', JStr ''6''), (''status_code'', JNum 200), (''headers'', JObj [])])) \<and>
   map_option world (detached_state
      (HandleMessage reject_json (demo_executor (env_with do_ok) [wf_two]) handler_tc message_text s0))
     = Some [get_request ''http://svc/a'', get_request ''http://svc/b/{{output.x}}''] \<and>
   ctx_PreviousOutput (shared (NewExecutor env db cat clk ids dsm)) = [] \<and>
   HTTPClientAction_replaceTemplateVars (shared (NewExecutor env db cat clk ids dsm)) t = t"
proof -
  let ?e = "demo_executor (env_with do_ok) [wf_two]"
  let ?R = "HandleMessage reject_json ?e handler_tc message_text s0"
  let ?inst0 = "newInstance ?e wf_two (Some (fst (parseMessage reject_json handler_tc message_text))) s0"
  let ?out = "JObj [(''x'', JStr ''6''), (''status_code'', JNum 200), (''headers'', JObj [])]"
  have h1: "GetWorkflowConfig ?e (h_topic handler_tc) (h_channel handler_tc) = Inr wf_two"
    unfolding wf_two_def by (rule demo_catalog)
  have h2: "replace_error (mongoDB ?e) = None" by (rule demo_healthy)
  note d = HandleMessage_dispatch [OF h1 h2, of reject_json message_text s0]
  note st = HandleMessage_state_at_return [OF h1 h2, of reject_json message_text s0]
  have w0: "world (state_at_return ?R) = []" using st by (simp add: s0_def)
  have run: "runTasks ?e (buildTasks wf_two) ?inst0 (state_at_return ?R) =
      (None,
       ?inst0\<lparr>Results := [(''A'', ?out), (''B'', ?out)]\<rparr>,
       (state_at_return ?R)\<lparr>world := [get_request ''http://svc/a'', get_request ''http://svc/b/{{output.x}}''],
                            trace := trace (state_at_return ?R) @ [Invoked ''A'', Invoked ''B'']\<rparr>)"
    unfolding buildTasks_wf_two
    by (simp add: demo_get_ok http_task_fields w0 newInstance_def)
  have ex: "executeTasks ?e ?inst0 (buildTasks wf_two) (state_at_return ?R) =
      finish ?e ''completed'' (?inst0\<lparr>Results := [(''A'', ?out), (''B'', ?out)]\<rparr>)
        ((state_at_return ?R)\<lparr>world := [get_request ''http://svc/a'', get_request ''http://svc/b/{{output.x}}''],
                            trace := trace (state_at_return ?R) @ [Invoked ''A'', Invoked ''B'']\<rparr>)"
    by (simp add: executeTasks_def run)
  have parts: "returned ?R = None \<and>
     detached_instance ?R = Some (fst (executeTasks ?e ?inst0 (buildTasks wf_two) (state_at_return ?R))) \<and>
     detached_state ?R = Some (snd (executeTasks ?e ?inst0 (buildTasks wf_two) (state_at_return ?R)))"
    by (subst d, subst (2) d, subst (3) d)
       (simp add: returned_def detached_instance_def detached_state_def)
  have sh: "shared (NewExecutor env db cat clk ids dsm) =
     \<lparr>ctx_DataSourceMgr = dsm, ctx_NSQMessage = None, ctx_WorkflowVars = [], ctx_PreviousOutput = []\<rparr>"
    by (simp add: NewExecutor_def registerDefaultActions_def)
  have ex2: "HTTPClientAction_replaceTemplateVars (shared (NewExecutor env db cat clk ids dsm)) t = t"
    by (rule replaceTemplateVars_no_bindings) (simp_all add: sh)
  show ?thesis
    using parts ex2 unfolding ex by (simp add: finish_fields result_of_def sh)
qed

end
